theory Spec2Isabelle
  imports Main "HOL-Library.Sublist"
begin

section \<open>The validator package: error model and validator set\<close>

text \<open>
  The repository holds two copies of package \<^verbatim>\<open>validator\<close>:
  \<^item> \<^verbatim>\<open>src/unnamed/part_000\<close>, with nine error kinds, \<^verbatim>\<open>ErrorType.String\<close>
    and an \<^verbatim>\<open>Error.String\<close> that returns \<^verbatim>\<open>err.Error()\<close>;
  \<^item> \<^verbatim>\<open>src/pkg/validate/validator/validator.go\<close>, with eight error kinds, no
    \<^verbatim>\<open>ErrorType.String\<close>, and an \<^verbatim>\<open>Error.String\<close> built with \<^verbatim>\<open>fmt.Sprintf\<close>.

  The types \<^verbatim>\<open>ManifestResult\<close>, \<^verbatim>\<open>Error\<close>, \<^verbatim>\<open>ErrorType\<close>, \<^verbatim>\<open>ValidatorSet\<close>, the first
  eight constants, \<^verbatim>\<open>Error.Error\<close>, \<^verbatim>\<open>NewValidatorSet\<close>, \<^verbatim>\<open>AddValidators\<close> and
  \<^verbatim>\<open>ValidateAll\<close> are the same text in both files and are embedded once. Where the
  two files differ, the definition taken from \<^verbatim>\<open>part_000\<close> keeps the source's name and
  the one taken from \<^verbatim>\<open>pkg/validate/validator/validator.go\<close> carries the prefix
  \<open>pkg_\<close>.
\<close>

subsection \<open>Data model\<close>

text \<open>
  \<^verbatim>\<open>BadValue interface{}\<close> holds any Go value. The constructors store the string
  \<^verbatim>\<open>""\<close> there, so strings are a case of their own; \<open>INil\<close> is the nil interface;
  every other dynamic value is an \<open>IOther\<close> of a type left open.
\<close>

datatype 'a iface = INil | IString string | IOther 'a

text \<open>\<^verbatim>\<open>type ErrorType string\<close>: any string is a value of the type.\<close>

type_synonym ErrorType = string

text \<open>
  \<^verbatim>\<open>type Error struct { Type ErrorType; Field string; BadValue interface{}; Detail string }\<close>.
  The field \<^verbatim>\<open>Field\<close> is written \<open>Field'\<close>, since \<open>Field\<close> is a constant of HOL's
  relations.
\<close>

record 'a Error =
  Type :: ErrorType
  Field' :: string
  BadValue :: "'a iface"
  Detail :: string

text \<open>\<^verbatim>\<open>type ManifestResult struct { Name string; Errors []Error; Warnings []Error }\<close>\<close>

record 'a ManifestResult =
  Name :: string
  Errors :: "'a Error list"
  Warnings :: "'a Error list"

text \<open>
  Modelled from the spec: the interface \<^verbatim>\<open>Validator\<close> is declared outside \<^verbatim>\<open>src/\<close>; the
  source only calls \<^verbatim>\<open>v.Name()\<close> and \<^verbatim>\<open>v.Validate()\<close>. The spec describes it as "a
  stable \<^verbatim>\<open>name\<close> identifier (string) and a \<^verbatim>\<open>validate\<close> operation with no required
  input (closed over its own target data) that produces a sequence of ManifestResult".
  A Go method may read and change state outside the set, so \<open>Validate\<close> takes the
  external world \<open>'w\<close> and returns it with the results.
\<close>

record ('a, 'w) Validator =
  Name :: string
  Validate :: "'w \<Rightarrow> 'a ManifestResult list \<times> 'w"

text \<open>\<^verbatim>\<open>type ValidatorSet struct { validators []Validator }\<close>\<close>

record ('a, 'w) ValidatorSet =
  validators :: "('a, 'w) Validator list"

subsection \<open>Error kinds\<close>

definition ErrorInvalidCSV :: ErrorType where
  "ErrorInvalidCSV = ''CSVFileNotValid''"

definition WarningFieldMissing :: ErrorType where
  "WarningFieldMissing = ''OptionalFieldNotFound''"

definition ErrorFieldMissing :: ErrorType where
  "ErrorFieldMissing = ''MandatoryFieldNotFound''"

definition ErrorUnsupportedType :: ErrorType where
  "ErrorUnsupportedType = ''FieldTypeNotSupported''"

definition ErrorInvalidParse :: ErrorType where
  "ErrorInvalidParse = ''Unmarshall/ParseError''"

definition ErrorIO :: ErrorType where
  "ErrorIO = ''FileReadError''"

definition ErrorFailedValidation :: ErrorType where
  "ErrorFailedValidation = ''ValidationFailed''"

definition ErrorInvalidOperation :: ErrorType where
  "ErrorInvalidOperation = ''OperationFailed''"

text \<open>Declared in \<^verbatim>\<open>part_000\<close> only.\<close>

definition ErrorInvalidDefaultChannel :: ErrorType where
  "ErrorInvalidDefaultChannel = ''DefaultChannelNotValid''"

text \<open>The \<^verbatim>\<open>const\<close> block of \<^verbatim>\<open>part_000\<close>, in declaration order.\<close>

definition ErrorTypes :: "ErrorType list" where
  "ErrorTypes =
     [ErrorInvalidCSV, WarningFieldMissing, ErrorFieldMissing, ErrorUnsupportedType,
      ErrorInvalidParse, ErrorIO, ErrorFailedValidation, ErrorInvalidOperation,
      ErrorInvalidDefaultChannel]"

subsection \<open>Constructors of \<^verbatim>\<open>part_000\<close>\<close>

definition InvalidCSV :: "string \<Rightarrow> 'a Error" where
  "InvalidCSV detail =
     \<lparr>Type = ErrorInvalidCSV, Field' = '''', BadValue = IString '''', Detail = detail\<rparr>"

definition InvalidDefaultChannel :: "string \<Rightarrow> 'a iface \<Rightarrow> 'a Error" where
  "InvalidDefaultChannel detail val =
     \<lparr>Type = ErrorInvalidDefaultChannel, Field' = '''', BadValue = val, Detail = detail\<rparr>"

definition OptionalFieldMissing :: "string \<Rightarrow> string \<Rightarrow> 'a iface \<Rightarrow> 'a Error" where
  "OptionalFieldMissing detail field val =
     \<lparr>Type = WarningFieldMissing, Field' = field, BadValue = val, Detail = detail\<rparr>"

definition MandatoryFieldMissing :: "string \<Rightarrow> string \<Rightarrow> 'a iface \<Rightarrow> 'a Error" where
  "MandatoryFieldMissing detail field val =
     \<lparr>Type = ErrorFieldMissing, Field' = field, BadValue = val, Detail = detail\<rparr>"

definition UnsupportedType :: "string \<Rightarrow> 'a Error" where
  "UnsupportedType detail =
     \<lparr>Type = ErrorUnsupportedType, Field' = '''', BadValue = IString '''', Detail = detail\<rparr>"

definition InvalidParse :: "string \<Rightarrow> 'a iface \<Rightarrow> 'a Error" where
  "InvalidParse detail val =
     \<lparr>Type = ErrorInvalidParse, Field' = '''', BadValue = val, Detail = detail\<rparr>"

definition IOError :: "string \<Rightarrow> 'a iface \<Rightarrow> 'a Error" where
  "IOError detail val =
     \<lparr>Type = ErrorIO, Field' = '''', BadValue = val, Detail = detail\<rparr>"

definition FailedValidation :: "string \<Rightarrow> 'a iface \<Rightarrow> 'a Error" where
  "FailedValidation detail val =
     \<lparr>Type = ErrorFailedValidation, Field' = '''', BadValue = val, Detail = detail\<rparr>"

definition InvalidOperation :: "string \<Rightarrow> 'a iface \<Rightarrow> 'a Error" where
  "InvalidOperation detail val =
     \<lparr>Type = ErrorInvalidOperation, Field' = '''', BadValue = val, Detail = detail\<rparr>"

subsection \<open>Constructors of \<^verbatim>\<open>pkg/validate/validator/validator.go\<close>\<close>

text \<open>
  \<^verbatim>\<open>InvalidCSV\<close>, \<^verbatim>\<open>UnsupportedType\<close>, \<^verbatim>\<open>InvalidParse\<close>, \<^verbatim>\<open>IOError\<close> and
  \<^verbatim>\<open>FailedValidation\<close> have the same parameters and body as in \<^verbatim>\<open>part_000\<close>. The two
  field constructors take \<^verbatim>\<open>(field, value, detail)\<close>, \<^verbatim>\<open>InvalidOperation\<close> takes the
  detail alone, and there is no \<^verbatim>\<open>InvalidDefaultChannel\<close>.
\<close>

definition pkg_InvalidCSV :: "string \<Rightarrow> 'a Error" where
  "pkg_InvalidCSV detail =
     \<lparr>Type = ErrorInvalidCSV, Field' = '''', BadValue = IString '''', Detail = detail\<rparr>"

definition pkg_OptionalFieldMissing :: "string \<Rightarrow> 'a iface \<Rightarrow> string \<Rightarrow> 'a Error" where
  "pkg_OptionalFieldMissing field val detail =
     \<lparr>Type = WarningFieldMissing, Field' = field, BadValue = val, Detail = detail\<rparr>"

definition pkg_MandatoryFieldMissing :: "string \<Rightarrow> 'a iface \<Rightarrow> string \<Rightarrow> 'a Error" where
  "pkg_MandatoryFieldMissing field val detail =
     \<lparr>Type = ErrorFieldMissing, Field' = field, BadValue = val, Detail = detail\<rparr>"

definition pkg_UnsupportedType :: "string \<Rightarrow> 'a Error" where
  "pkg_UnsupportedType detail =
     \<lparr>Type = ErrorUnsupportedType, Field' = '''', BadValue = IString '''', Detail = detail\<rparr>"

definition pkg_InvalidParse :: "string \<Rightarrow> 'a iface \<Rightarrow> 'a Error" where
  "pkg_InvalidParse detail val =
     \<lparr>Type = ErrorInvalidParse, Field' = '''', BadValue = val, Detail = detail\<rparr>"

definition pkg_IOError :: "string \<Rightarrow> 'a iface \<Rightarrow> 'a Error" where
  "pkg_IOError detail val =
     \<lparr>Type = ErrorIO, Field' = '''', BadValue = val, Detail = detail\<rparr>"

definition pkg_FailedValidation :: "string \<Rightarrow> 'a iface \<Rightarrow> 'a Error" where
  "pkg_FailedValidation detail val =
     \<lparr>Type = ErrorFailedValidation, Field' = '''', BadValue = val, Detail = detail\<rparr>"

definition pkg_InvalidOperation :: "string \<Rightarrow> 'a Error" where
  "pkg_InvalidOperation detail =
     \<lparr>Type = ErrorInvalidOperation, Field' = '''', BadValue = IString '''', Detail = detail\<rparr>"

subsection \<open>Rendering\<close>

text \<open>
  \<^verbatim>\<open>func (t ErrorType) String() string\<close> of \<^verbatim>\<open>part_000\<close>. The \<^verbatim>\<open>default\<close> branch
  panics with the message \<^verbatim>\<open>fmt.Sprintf("Unrecognized validation error: %q", string(t))\<close>;
  the fault of the model carries \<open>t\<close> itself.
\<close>

datatype fault = Unrecognized_validation_error ErrorType

definition ErrorType_String :: "ErrorType \<Rightarrow> fault + string" where
  "ErrorType_String t =
     (if t = ErrorInvalidCSV then Inr ''CSV file not valid''
      else if t = WarningFieldMissing then Inr ''Optional field not found''
      else if t = ErrorFieldMissing then Inr ''Mandatory field not found''
      else if t = ErrorUnsupportedType then Inr ''Field type not supported''
      else if t = ErrorInvalidParse then Inr ''Unmarshall/Parse error''
      else if t = ErrorIO then Inr ''File read error''
      else if t = ErrorFailedValidation then Inr ''Validation failed''
      else if t = ErrorInvalidOperation then Inr ''Operation failed''
      else if t = ErrorInvalidDefaultChannel then Inr ''Default channel not found''
      else Inl (Unrecognized_validation_error t))"

text \<open>\<^verbatim>\<open>func (err Error) Error() string { return err.Detail }\<close>, in both files.\<close>

definition Error_Error :: "'a Error \<Rightarrow> string" where
  "Error_Error err = Detail err"

text \<open>
  \<^verbatim>\<open>func (err Error) String() string\<close> of \<^verbatim>\<open>part_000\<close>: the \<^verbatim>\<open>Sprintf\<close> line is
  commented out and the body is \<^verbatim>\<open>return err.Error()\<close>.
\<close>

definition Error_String :: "'a Error \<Rightarrow> string" where
  "Error_String err = Error_Error err"

text \<open>
  The fragment of \<^verbatim>\<open>fmt\<close> that \<^verbatim>\<open>validator.go\<close> uses. \<open>fmt_v\<close> is the verb \<^verbatim>\<open>%v\<close> on
  an interface value: a string prints as itself, nil as \<^verbatim>\<open><nil>\<close>, and the display of
  any other value is the parameter \<open>disp\<close>. \<open>Sprintf\<close> copies the format and replaces
  each verb (\<^verbatim>\<open>%\<close> and the character after it; flags and widths are not modelled) by
  the next operand, already rendered; \<^verbatim>\<open>%%\<close> prints one \<^verbatim>\<open>%\<close>, a verb without
  operand prints as \<^verbatim>\<open>%!v(MISSING)\<close> and a lone \<^verbatim>\<open>%\<close> at the end as
  \<^verbatim>\<open>%!(NOVERB)\<close>.
\<close>

definition fmt_v :: "('a \<Rightarrow> string) \<Rightarrow> 'a iface \<Rightarrow> string" where
  "fmt_v disp x = (case x of INil \<Rightarrow> ''<nil>'' | IString s \<Rightarrow> s | IOther a \<Rightarrow> disp a)"

fun Sprintf :: "string \<Rightarrow> string list \<Rightarrow> string" where
  "Sprintf [] args = []"
| "Sprintf [c] args = (if c = CHR ''%'' then ''%!(NOVERB)'' else [c])"
| "Sprintf (c # verb # rest) args =
     (if c = CHR ''%'' then
        (if verb = CHR ''%'' then CHR ''%'' # Sprintf rest args
         else
           (case args of
              [] \<Rightarrow> ''%!'' @ [verb] @ ''(MISSING)'' @ Sprintf rest []
            | a # as \<Rightarrow> a @ Sprintf rest as))
      else c # Sprintf (verb # rest) args)"

text \<open>
  \<^verbatim>\<open>func (err Error) String() string\<close> of \<^verbatim>\<open>validator.go\<close>:
  \<^verbatim>\<open>fmt.Sprintf("Error type: %s | Field: %s | Value: %v | Detail: %s", err.Type, err.Field, err.BadValue, err.Detail)\<close>.
  \<^verbatim>\<open>ErrorType\<close> has no \<^verbatim>\<open>String\<close> method in this file, so \<^verbatim>\<open>%s\<close> prints the string
  of \<^verbatim>\<open>err.Type\<close> as it is.
\<close>

definition pkg_Error_String :: "('a \<Rightarrow> string) \<Rightarrow> 'a Error \<Rightarrow> string" where
  "pkg_Error_String disp err =
     Sprintf ''Error type: %s | Field: %s | Value: %v | Detail: %s''
       [Type err, Field' err, fmt_v disp (BadValue err), Detail err]"

subsection \<open>The validator set\<close>

text \<open>
  The loop of \<^verbatim>\<open>AddValidators\<close>: \<^verbatim>\<open>seenNames\<close> is the map local to the call,
  \<open>vals\<close> is \<^verbatim>\<open>set.validators\<close>. The receiver \<^verbatim>\<open>set\<close> is written \<open>vset\<close>.
\<close>

fun AddValidators_loop ::
  "('a, 'w) Validator list \<Rightarrow> (string \<rightharpoonup> unit) \<Rightarrow> ('a, 'w) Validator list \<Rightarrow>
   ('a, 'w) Validator list" where
  "AddValidators_loop [] seenNames vals = vals"
| "AddValidators_loop (v # vs) seenNames vals =
     (if seenNames (Name v) = None
      then AddValidators_loop vs (seenNames(Name v \<mapsto> ())) (vals @ [v])
      else AddValidators_loop vs seenNames vals)"

text \<open>
  \<^verbatim>\<open>func (set *ValidatorSet) AddValidators(vs ...Validator)\<close>: \<^verbatim>\<open>seenNames\<close> starts
  empty at every call. The receiver is a pointer; the model returns the updated set.
\<close>

definition AddValidators ::
  "('a, 'w) ValidatorSet \<Rightarrow> ('a, 'w) Validator list \<Rightarrow> ('a, 'w) ValidatorSet" where
  "AddValidators vset vs =
     vset\<lparr>validators := AddValidators_loop vs Map.empty (validators vset)\<rparr>"

text \<open>\<^verbatim>\<open>func NewValidatorSet(vs ...Validator) *ValidatorSet\<close>\<close>

definition NewValidatorSet :: "('a, 'w) Validator list \<Rightarrow> ('a, 'w) ValidatorSet" where
  "NewValidatorSet vs = AddValidators \<lparr>validators = []\<rparr> vs"

text \<open>
  The loop of \<^verbatim>\<open>ValidateAll\<close>: each \<^verbatim>\<open>v.Validate()\<close> runs in the world the previous
  one left, and its results are appended to \<^verbatim>\<open>allResults\<close>.
\<close>

fun ValidateAll_loop ::
  "('a, 'w) Validator list \<Rightarrow> 'a ManifestResult list \<Rightarrow> 'w \<Rightarrow> 'a ManifestResult list \<times> 'w" where
  "ValidateAll_loop [] allResults w = (allResults, w)"
| "ValidateAll_loop (v # vs) allResults w =
     (case Validate v w of (results, w') \<Rightarrow> ValidateAll_loop vs (allResults @ results) w')"

text \<open>
  \<^verbatim>\<open>func (set ValidatorSet) ValidateAll() (allResults []ManifestResult)\<close>. The result
  here is the list of the elements of the slice returned; whether that slice is nil is
  kept by \<open>ValidateAll_slice\<close> below. The receiver is a value and the body only reads
  it, so the set is an input and not part of the result.
\<close>

definition ValidateAll :: "('a, 'w) ValidatorSet \<Rightarrow> 'w \<Rightarrow> 'a ManifestResult list \<times> 'w" where
  "ValidateAll vset w = ValidateAll_loop (validators vset) [] w"

text \<open>
  \<open>ValidateAll\<close> above gives the elements of the returned slice. A Go slice value is
  moreover nil or not: \<^verbatim>\<open>Nil_slice\<close> is the nil slice, the zero value that the named result
  \<^verbatim>\<open>allResults\<close> starts with, and \<open>Slice xs\<close> is an allocated slice holding \<open>xs\<close>
  (\<open>Slice []\<close> is allocated and empty). Both have a length, and the nil slice has
  length 0.
\<close>

datatype 'a slice = Nil_slice | Slice "'a list"

fun slice_elems :: "'a slice \<Rightarrow> 'a list" where
  "slice_elems Nil_slice = []"
| "slice_elems (Slice xs) = xs"

definition slice_len :: "'a slice \<Rightarrow> nat" where
  "slice_len s = length (slice_elems s)"

text \<open>
  Go's \<^verbatim>\<open>append(s, xs...)\<close>: with no element to add it returns \<^verbatim>\<open>s\<close> as it is, so
  nil stays nil; with at least one element the result is allocated.
\<close>

fun append_slice :: "'a slice \<Rightarrow> 'a list \<Rightarrow> 'a slice" where
  "append_slice s [] = s"
| "append_slice s (x # xs) = Slice (slice_elems s @ x # xs)"

text \<open>
  The loop and the body of \<^verbatim>\<open>ValidateAll\<close> again, on slice values: \<^verbatim>\<open>allResults\<close> is
  nil at the start and is reassigned by \<^verbatim>\<open>append\<close> for every validator.
\<close>

fun ValidateAll_slice_loop ::
  "('a, 'w) Validator list \<Rightarrow> 'a ManifestResult slice \<Rightarrow> 'w \<Rightarrow> 'a ManifestResult slice \<times> 'w" where
  "ValidateAll_slice_loop [] allResults w = (allResults, w)"
| "ValidateAll_slice_loop (v # vs) allResults w =
     (case Validate v w of
        (results, w') \<Rightarrow> ValidateAll_slice_loop vs (append_slice allResults results) w')"

definition ValidateAll_slice ::
  "('a, 'w) ValidatorSet \<Rightarrow> 'w \<Rightarrow> 'a ManifestResult slice \<times> 'w" where
  "ValidateAll_slice vset w = ValidateAll_slice_loop (validators vset) Nil_slice w"

text \<open>
  The validators one call of \<^verbatim>\<open>AddValidators\<close> appended: what follows the
  validators that were registered before the call.
\<close>

definition added :: "('a, 'w) ValidatorSet \<Rightarrow> ('a, 'w) Validator list \<Rightarrow> ('a, 'w) Validator list" where
  "added vset vs = drop (length (validators vset)) (validators (AddValidators vset vs))"

text \<open>
  The arguments of a call whose name is not in \<open>seen\<close> and not the name of an earlier
  argument: the loop of \<^verbatim>\<open>AddValidators\<close> without its accumulator.
\<close>

fun fresh :: "('a, 'w) Validator list \<Rightarrow> string set \<Rightarrow> ('a, 'w) Validator list" where
  "fresh [] seen = []"
| "fresh (v # vs) seen =
     (if Name v \<notin> seen then v # fresh vs (insert (Name v) seen) else fresh vs seen)"

subsection \<open>Validators for the scenarios\<close>

text \<open>
  Two implementations of the \<^verbatim>\<open>Validator\<close> interface. \<open>probe\<close> records every call of
  its \<^verbatim>\<open>Validate\<close> in the world, which is the list of the names called so far;
  \<open>const_validator\<close> leaves the world as it is. Both return a fixed list of results.
\<close>

definition probe :: "string \<Rightarrow> 'a ManifestResult list \<Rightarrow> ('a, string list) Validator" where
  "probe n results = \<lparr>Name = n, Validate = (\<lambda>calls. (results, calls @ [n]))\<rparr>"

definition const_validator :: "string \<Rightarrow> 'a ManifestResult list \<Rightarrow> ('a, 'w) Validator" where
  "const_validator n results = \<lparr>Name = n, Validate = (\<lambda>w. (results, w))\<rparr>"

text \<open>The results and validators of the end-to-end scenario of the specification.\<close>

definition csv_result :: "unit ManifestResult" where
  "csv_result =
     \<lparr>ManifestResult.Name = ''my-operator.v1.0.0'',
      Errors = [InvalidCSV ''CSV missing required field displayName''],
      Warnings = []\<rparr>"

definition channel_result :: "unit ManifestResult" where
  "channel_result =
     \<lparr>ManifestResult.Name = ''my-operator.v1.0.0'',
      Errors = [],
      Warnings = [InvalidDefaultChannel ''channel alpha not declared'' (IString ''alpha'')]\<rparr>"

definition csv_probe :: "(unit, string list) Validator" where
  "csv_probe = probe ''csv'' [csv_result]"

definition channel_probe :: "(unit, string list) Validator" where
  "channel_probe = probe ''channel'' [channel_result]"

definition channel_probe2 :: "(unit, string list) Validator" where
  "channel_probe2 = probe ''channel'' []"

definition lint_probe :: "(unit, string list) Validator" where
  "lint_probe = probe ''lint'' [csv_result, channel_result]"

definition empty_set :: "(unit, string list) ValidatorSet" where
  "empty_set = NewValidatorSet []"

definition quiet_set :: "(unit, string list) ValidatorSet" where
  "quiet_set = NewValidatorSet [probe ''a'' [], probe ''b'' []]"

definition constant_set :: "(unit, nat) ValidatorSet" where
  "constant_set = NewValidatorSet
       [const_validator ''csv'' [csv_result], const_validator ''channel'' [channel_result]]"

text \<open>A display for the values of type \<open>unit\<close>, which the scenarios do not use.\<close>

definition disp_unit :: "unit \<Rightarrow> string" where
  "disp_unit u = ''{}''"

section \<open>Properties\<close>

subsection \<open>Unfolding rules and loop lemmas\<close>

lemmas ErrorType_defs =
  ErrorInvalidCSV_def WarningFieldMissing_def ErrorFieldMissing_def ErrorUnsupportedType_def
  ErrorInvalidParse_def ErrorIO_def ErrorFailedValidation_def ErrorInvalidOperation_def
  ErrorInvalidDefaultChannel_def

lemmas constructor_defs =
  InvalidCSV_def InvalidDefaultChannel_def OptionalFieldMissing_def MandatoryFieldMissing_def
  UnsupportedType_def InvalidParse_def IOError_def FailedValidation_def InvalidOperation_def

lemmas pkg_constructor_defs =
  pkg_InvalidCSV_def pkg_OptionalFieldMissing_def pkg_MandatoryFieldMissing_def
  pkg_UnsupportedType_def pkg_InvalidParse_def pkg_IOError_def pkg_FailedValidation_def
  pkg_InvalidOperation_def

lemmas scenario_defs =
  probe_def const_validator_def csv_probe_def channel_probe_def channel_probe2_def lint_probe_def
  quiet_set_def constant_set_def NewValidatorSet_def AddValidators_def ValidateAll_def

lemma dom_seen_upd: "dom (seen(n \<mapsto> ())) = insert n (dom seen)"
  by (simp only: dom_fun_upd option.distinct if_False)

lemma AddValidators_loop_fresh:
  "AddValidators_loop vs seen vals = vals @ fresh vs (dom seen)"
proof (induction vs arbitrary: seen vals)
  case Nil
  show ?case by simp
next
  case (Cons v vs)
  show ?case
  proof (cases "seen (Name v) = None")
    case True
    then have "Name v \<notin> dom seen" by (simp add: domIff)
    then have "fresh (v # vs) (dom seen) = v # fresh vs (dom (seen(Name v \<mapsto> ())))"
      unfolding dom_seen_upd by simp
    moreover have "AddValidators_loop (v # vs) seen vals =
        AddValidators_loop vs (seen(Name v \<mapsto> ())) (vals @ [v])"
      using True by (simp del: fun_upd_apply)
    ultimately show ?thesis
      unfolding Cons.IH by simp
  next
    case False
    then have "Name v \<in> dom seen" by (simp add: domIff)
    with False show ?thesis by (simp add: Cons.IH)
  qed
qed

lemma validators_AddValidators:
  "validators (AddValidators vset vs) = validators vset @ fresh vs {}"
  by (simp add: AddValidators_def AddValidators_loop_fresh)

lemma added_fresh: "added vset vs = fresh vs {}"
  by (simp add: added_def validators_AddValidators)

lemma fresh_names: "Name ` set (fresh vs seen) = Name ` set vs - seen"
  by (induction vs arbitrary: seen) auto

lemma fresh_distinct: "distinct (map Name (fresh vs seen))"
  by (induction vs arbitrary: seen) (simp_all add: fresh_names)

lemma fresh_first: "v \<in> set (fresh vs seen) \<Longrightarrow> find (\<lambda>u. Name u = Name v) vs = Some v"
proof (induction vs arbitrary: seen)
  case Nil
  then show ?case by simp
next
  case (Cons x xs)
  show ?case
  proof (cases "v = x")
    case True
    then show ?thesis by simp
  next
    case False
    with Cons.prems obtain seen' where in_rest: "v \<in> set (fresh xs seen')"
      and x_seen: "Name x \<in> seen'"
      by (cases "Name x \<in> seen") auto
    from in_rest have "Name v \<in> Name ` set (fresh xs seen')" by (rule imageI)
    then have "Name v \<notin> seen'" unfolding fresh_names by simp
    with x_seen have "Name x \<noteq> Name v" by auto
    with Cons.IH [OF in_rest] show ?thesis by simp
  qed
qed

lemma ValidateAll_loop_probes:
  "snd (ValidateAll_loop (map (\<lambda>(n, r). probe n r) nrs) acc calls) = calls @ map fst nrs"
  by (induction nrs arbitrary: acc calls) (auto simp: probe_def)

lemma ValidateAll_loop_quiet:
  "(\<forall>v\<in>set vs. \<forall>w'. fst (Validate v w') = []) \<Longrightarrow> fst (ValidateAll_loop vs [] w) = []"
proof (induction vs arbitrary: w)
  case Nil
  show ?case by simp
next
  case (Cons v vs)
  obtain results w' where step: "Validate v w = (results, w')" by (cases "Validate v w")
  with Cons.prems have "results = []" by (metis fst_conv list.set_intros(1))
  with Cons step show ?case by simp
qed

lemma ValidateAll_loop_world:
  "(\<forall>v\<in>set vs. \<forall>w'. snd (Validate v w') = w') \<Longrightarrow> snd (ValidateAll_loop vs acc w) = w"
proof (induction vs arbitrary: acc w)
  case Nil
  show ?case by simp
next
  case (Cons v vs)
  obtain results w' where step: "Validate v w = (results, w')" by (cases "Validate v w")
  with Cons.prems have "w' = w" by (metis snd_conv list.set_intros(1))
  with Cons step show ?case by simp
qed

lemma Sprintf_verbose:
  "Sprintf ''Error type: %s | Field: %s | Value: %v | Detail: %s'' [a, b, c, d] =
     ''Error type: '' @ a @ '' | Field: '' @ b @ '' | Value: '' @ c @ '' | Detail: '' @ d"
  by simp

lemma append_slice_append: "append_slice (append_slice s xs) ys = append_slice s (xs @ ys)"
  by (cases xs; cases ys) simp_all

lemma ValidateAll_loop_acc:
  "ValidateAll_loop vs acc w =
     (acc @ fst (ValidateAll_loop vs [] w), snd (ValidateAll_loop vs [] w))"
proof (induction vs arbitrary: acc w)
  case Nil
  show ?case by simp
next
  case (Cons v vs)
  obtain results w' where step: "Validate v w = (results, w')" by (cases "Validate v w")
  show ?case
    using Cons.IH [of "acc @ results" w'] Cons.IH [of results w'] by (simp add: step)
qed

lemma ValidateAll_slice_loop_elems:
  "ValidateAll_slice_loop vs s w =
     (append_slice s (fst (ValidateAll_loop vs [] w)), snd (ValidateAll_loop vs [] w))"
proof (induction vs arbitrary: s w)
  case Nil
  show ?case by simp
next
  case (Cons v vs)
  obtain results w' where step: "Validate v w = (results, w')" by (cases "Validate v w")
  have "ValidateAll_loop (v # vs) [] w = ValidateAll_loop vs results w'"
    by (simp add: step)
  then have "ValidateAll_loop (v # vs) [] w =
      (results @ fst (ValidateAll_loop vs [] w'), snd (ValidateAll_loop vs [] w'))"
    using ValidateAll_loop_acc [of vs results w'] by simp
  then show ?case
    by (simp add: step Cons.IH append_slice_append)
qed

lemma ValidateAll_slice_eq:
  "ValidateAll_slice vset w =
     (append_slice Nil_slice (fst (ValidateAll vset w)), snd (ValidateAll vset w))"
  by (simp add: ValidateAll_slice_def ValidateAll_def ValidateAll_slice_loop_elems)

lemma ValidateAll_slice_nil_iff:
  "(fst (ValidateAll_slice vset w) = Nil_slice) = (fst (ValidateAll vset w) = [])"
  by (cases "fst (ValidateAll vset w)") (simp_all add: ValidateAll_slice_eq)

lemma ValidateAll_slice_elems:
  "slice_elems (fst (ValidateAll_slice vset w)) = fst (ValidateAll vset w)"
  by (cases "fst (ValidateAll vset w)") (simp_all add: ValidateAll_slice_eq)

lemma ValidateAll_slice_world:
  "snd (ValidateAll_slice vset w) = snd (ValidateAll vset w)"
  by (simp add: ValidateAll_slice_eq)

lemma ValidateAll_slice_quiet:
  "(\<forall>v\<in>set (validators vset). \<forall>w'. fst (Validate v w') = []) \<Longrightarrow>
     fst (ValidateAll_slice vset w) = Nil_slice"
  by (simp add: ValidateAll_slice_nil_iff ValidateAll_def ValidateAll_loop_quiet)

subsection \<open>Registration\<close>

text \<open>
  C1, as the specification states it, fails: name uniqueness is not an invariant across
  calls. \<^verbatim>\<open>seenNames\<close> is created empty inside \<^verbatim>\<open>AddValidators\<close>, so a second call given
  the validator named \<^verbatim>\<open>csv\<close> appends it again: the set then holds two validators of
  that name and \<^verbatim>\<open>ValidateAll\<close> calls \<^verbatim>\<open>Validate\<close> on it twice, returning its result
  twice.
\<close>

theorem AddValidators_twice_counterexample:
  "\<not> distinct (map Name (validators (AddValidators (NewValidatorSet [csv_probe]) [csv_probe])))
   \<and> ValidateAll (AddValidators (NewValidatorSet [csv_probe]) [csv_probe]) [] =
       ([csv_result, csv_result], [''csv'', ''csv''])"
  by (simp add: scenario_defs)

text \<open>
  C1, amended: uniqueness holds within one call of \<^verbatim>\<open>AddValidators\<close>. A call appends
  to the validators already registered; the validators it appends have pairwise
  distinct names, carry exactly the names of its arguments, and each is the first
  argument of its name (the first one wins). Hence a set made by one call of
  \<^verbatim>\<open>NewValidatorSet\<close> has no two validators of one name. The names registered by earlier
  calls are not consulted: adding \<open>v\<close> in two separate calls registers it twice. And
  \<^verbatim>\<open>ValidateAll\<close> calls \<^verbatim>\<open>Validate\<close> once per registered entry, in registration order:
  on a set of probes the calls recorded are the names of the entries.
\<close>

theorem AddValidators_unique_per_call:
  "validators (AddValidators vset vs) = validators vset @ added vset vs
   \<and> distinct (map Name (added vset vs))
   \<and> Name ` set (added vset vs) = Name ` set vs
   \<and> (\<forall>v\<in>set (added vset vs). find (\<lambda>u. Name u = Name v) vs = Some v)
   \<and> distinct (map Name (validators (NewValidatorSet vs)))
   \<and> validators (AddValidators (AddValidators vset [v]) [v]) = validators vset @ [v, v]
   \<and> snd (ValidateAll \<lparr>validators = map (\<lambda>(n, r). probe n r) nrs\<rparr> calls) = calls @ map fst nrs"
proof -
  have "validators (AddValidators vset vs) = validators vset @ added vset vs"
    by (simp add: validators_AddValidators added_fresh)
  moreover have "distinct (map Name (added vset vs))"
    by (simp only: added_fresh fresh_distinct)
  moreover have "Name ` set (added vset vs) = Name ` set vs"
    by (simp add: added_fresh fresh_names)
  moreover have "\<forall>v\<in>set (added vset vs). find (\<lambda>u. Name u = Name v) vs = Some v"
    unfolding added_fresh by (blast intro: fresh_first)
  moreover have "distinct (map Name (validators (NewValidatorSet vs)))"
    by (simp add: NewValidatorSet_def validators_AddValidators fresh_distinct)
  moreover have "validators (AddValidators (AddValidators vset [v]) [v]) = validators vset @ [v, v]"
    by (simp add: validators_AddValidators)
  moreover have "snd (ValidateAll \<lparr>validators = map (\<lambda>(n, r). probe n r) nrs\<rparr> calls) =
      calls @ map fst nrs"
    by (simp add: ValidateAll_def ValidateAll_loop_probes)
  ultimately show ?thesis by blast
qed

text \<open>
  The amended C1 at a set holding \<^verbatim>\<open>csv\<close>, given two validators named \<^verbatim>\<open>channel\<close> and
  \<^verbatim>\<open>csv\<close> again: the first \<^verbatim>\<open>channel\<close> and \<^verbatim>\<open>csv\<close> are appended, the second
  \<^verbatim>\<open>channel\<close> is dropped.
\<close>

theorem AddValidators_unique_per_call_witness:
  "added (NewValidatorSet [csv_probe]) [channel_probe, channel_probe2, csv_probe] =
     [channel_probe, csv_probe]
   \<and> find (\<lambda>u. Name u = Name channel_probe) [channel_probe, channel_probe2, csv_probe] =
       Some channel_probe
   \<and> find (\<lambda>u. Name u = Name csv_probe) [channel_probe, channel_probe2, csv_probe] =
       Some csv_probe"
proof -
  have a: "added (NewValidatorSet [csv_probe]) [channel_probe, channel_probe2, csv_probe] =
      [channel_probe, csv_probe]"
    by (simp add: added_def scenario_defs)
  show ?thesis
    using AddValidators_unique_per_call
      [of "NewValidatorSet [csv_probe]" "[channel_probe, channel_probe2, csv_probe]"]
    unfolding a by (simp add: scenario_defs)
qed

subsection \<open>Execution\<close>

text \<open>
  C2: on a set whose registered validators are \<open>V1\<close>, \<open>V2\<close>, \<open>V3\<close> in that order,
  where \<^verbatim>\<open>Validate\<close> returns \<open>R1\<close>, \<open>R2\<close>, \<open>R3\<close> (each run in the world the one before
  left), \<^verbatim>\<open>ValidateAll\<close> returns exactly \<open>R1 @ R2 @ R3\<close>: every result unmodified, in
  order, none dropped or merged.
\<close>

theorem ValidateAll_concat3:
  assumes "validators vset = [V1, V2, V3]"
    and "Validate V1 w0 = (R1, w1)"
    and "Validate V2 w1 = (R2, w2)"
    and "Validate V3 w2 = (R3, w3)"
  shows "ValidateAll vset w0 = (R1 @ R2 @ R3, w3)"
  using assms by (simp add: ValidateAll_def)

text \<open>
  C2 on the scenario of the specification, with a third validator that reports both
  results again: the repeated results are kept.
\<close>

theorem ValidateAll_concat3_witness:
  "ValidateAll (NewValidatorSet [csv_probe, channel_probe, lint_probe]) [] =
     ([csv_result] @ [channel_result] @ [csv_result, channel_result],
      [''csv'', ''channel'', ''lint''])"
proof -
  have v: "validators (NewValidatorSet [csv_probe, channel_probe, lint_probe]) =
      [csv_probe, channel_probe, lint_probe]"
    by (simp add: scenario_defs)
  have r1: "Validate csv_probe [] = ([csv_result], [''csv''])"
    by (simp add: scenario_defs)
  have r2: "Validate channel_probe [''csv''] = ([channel_result], [''csv'', ''channel''])"
    by (simp add: scenario_defs)
  have r3: "Validate lint_probe [''csv'', ''channel''] =
      ([csv_result, channel_result], [''csv'', ''channel'', ''lint''])"
    by (simp add: scenario_defs)
  show ?thesis by (rule ValidateAll_concat3 [OF v r1 r2 r3])
qed

text \<open>
  C3, as the specification states it, fails in its second half. On a set with no
  registered validators, and on a set of two validators that report nothing,
  \<^verbatim>\<open>ValidateAll\<close> returns the nil slice: \<^verbatim>\<open>allResults\<close> is never assigned an allocated
  slice, so the value returned is Go's absent slice value, not an allocated empty
  sequence.
\<close>

theorem ValidateAll_nil_counterexample:
  "fst (ValidateAll_slice empty_set []) = Nil_slice
   \<and> fst (ValidateAll_slice empty_set []) \<noteq> Slice []
   \<and> fst (ValidateAll_slice quiet_set []) = Nil_slice
   \<and> fst (ValidateAll_slice quiet_set []) \<noteq> Slice []"
  by (simp add: ValidateAll_slice_def empty_set_def scenario_defs)

text \<open>
  C3, amended: \<^verbatim>\<open>ValidateAll\<close> on a set with no registered validators, and whenever
  every registered validator returns no results, returns the nil slice, which has
  length 0 and no elements; it always returns. The slice returned is nil exactly when
  no result was appended, and in every case its elements are those of \<open>ValidateAll\<close>
  and the world it leaves is the same.
\<close>

theorem ValidateAll_returns_nil_slice:
  "ValidateAll_slice (NewValidatorSet []) w = (Nil_slice, w)
   \<and> slice_len (fst (ValidateAll_slice (NewValidatorSet []) w)) = 0
   \<and> ((\<forall>v\<in>set (validators vset). \<forall>w'. fst (Validate v w') = []) \<longrightarrow>
        fst (ValidateAll_slice vset w) = Nil_slice
        \<and> slice_len (fst (ValidateAll_slice vset w)) = 0)
   \<and> (fst (ValidateAll_slice vset w) = Nil_slice) = (fst (ValidateAll vset w) = [])
   \<and> slice_elems (fst (ValidateAll_slice vset w)) = fst (ValidateAll vset w)
   \<and> snd (ValidateAll_slice vset w) = snd (ValidateAll vset w)"
proof -
  have empty: "ValidateAll_slice (NewValidatorSet []) w = (Nil_slice, w)"
    by (simp add: ValidateAll_slice_def NewValidatorSet_def AddValidators_def)
  show ?thesis
    unfolding empty
    by (simp add: ValidateAll_slice_quiet ValidateAll_slice_nil_iff ValidateAll_slice_elems
        ValidateAll_slice_world slice_len_def)
qed

text \<open>
  The amended C3 on a set of two validators that report nothing: both are called, and
  the slice returned is nil, of length 0.
\<close>

theorem ValidateAll_returns_nil_slice_witness:
  "fst (ValidateAll_slice quiet_set []) = Nil_slice
   \<and> slice_len (fst (ValidateAll_slice quiet_set [])) = 0
   \<and> snd (ValidateAll_slice quiet_set []) = [''a'', ''b'']"
proof -
  have h: "\<forall>v\<in>set (validators quiet_set). \<forall>w'. fst (Validate v w') = []"
    by (simp add: scenario_defs)
  have "fst (ValidateAll_slice quiet_set []) = Nil_slice
      \<and> slice_len (fst (ValidateAll_slice quiet_set [])) = 0"
    using ValidateAll_returns_nil_slice [where vset = quiet_set and w = "[]"] h by blast
  moreover have "snd (ValidateAll_slice quiet_set []) = [''a'', ''b'']"
    by (simp add: ValidateAll_slice_def scenario_defs)
  ultimately show ?thesis by blast
qed

text \<open>
  C9: \<^verbatim>\<open>ValidateAll\<close> is repeatable. When no registered validator changes the world
  outside the set, a run leaves the world as it found it, and a second run on the same
  set returns the same aggregate as the first. \<^verbatim>\<open>ValidateAll\<close> keeps no state of its
  own, and it gets the set by value and only reads it: both runs are given the same
  \<open>vset\<close>.
\<close>

theorem ValidateAll_repeatable:
  assumes "\<forall>v\<in>set (validators vset). \<forall>w'. snd (Validate v w') = w'"
  shows "snd (ValidateAll vset w) = w
    \<and> fst (ValidateAll vset (snd (ValidateAll vset w))) = fst (ValidateAll vset w)"
proof -
  from assms have "snd (ValidateAll vset w) = w"
    by (simp add: ValidateAll_def ValidateAll_loop_world)
  then show ?thesis by simp
qed

text \<open>C9 on the scenario of the specification: both runs return the two results.\<close>

theorem ValidateAll_repeatable_witness:
  "fst (ValidateAll constant_set (snd (ValidateAll constant_set 0))) = [csv_result, channel_result]
   \<and> fst (ValidateAll constant_set 0) = [csv_result, channel_result]"
proof -
  have h: "\<forall>v\<in>set (validators constant_set). \<forall>w'. snd (Validate v w') = w'"
    by (simp add: scenario_defs)
  have r: "fst (ValidateAll constant_set 0) = [csv_result, channel_result]"
    by (simp add: scenario_defs)
  show ?thesis
    using ValidateAll_repeatable [OF h, of 0] r by simp
qed

text \<open>
  C10: \<^verbatim>\<open>AddValidators\<close> only appends. The validators registered before the call are a
  prefix of those registered after it, each at the index it had; a call without
  arguments leaves the set as it was.
\<close>

theorem AddValidators_appends:
  "prefix (validators vset) (validators (AddValidators vset vs))
   \<and> take (length (validators vset)) (validators (AddValidators vset vs)) = validators vset
   \<and> (\<forall>i < length (validators vset). validators (AddValidators vset vs) ! i = validators vset ! i)
   \<and> AddValidators vset [] = vset"
proof -
  have "AddValidators vset [] = vset"
    by (simp add: AddValidators_def)
  then show ?thesis
    by (simp add: validators_AddValidators nth_append)
qed

text \<open>C10 at index 0 of a set holding \<^verbatim>\<open>csv\<close>, after \<^verbatim>\<open>channel\<close> is added.\<close>

theorem AddValidators_appends_witness:
  "validators (AddValidators (NewValidatorSet [csv_probe]) [channel_probe]) ! 0 = csv_probe"
  using AddValidators_appends [of "NewValidatorSet [csv_probe]" "[channel_probe]"]
  by (simp add: scenario_defs)

subsection \<open>Error constructors\<close>

text \<open>
  C4, as the specification states it, fails on \<^verbatim>\<open>pkg/validate/validator/validator.go\<close>:
  there \<^verbatim>\<open>InvalidOperation\<close> has the single parameter \<^verbatim>\<open>detail\<close> and stores the string
  \<^verbatim>\<open>""\<close> as \<^verbatim>\<open>BadValue\<close>, so a value such as \<^verbatim>\<open>bundle.yaml\<close> cannot reach the error.
\<close>

theorem pkg_InvalidOperation_counterexample:
  "BadValue (pkg_InvalidOperation ''remove failed'' :: unit Error) = IString ''''
   \<and> BadValue (pkg_InvalidOperation ''remove failed'' :: unit Error) \<noteq> IString ''bundle.yaml''"
  by (simp add: pkg_InvalidOperation_def)

text \<open>
  C4, amended: \<^verbatim>\<open>InvalidOperation(detail, value)\<close> of \<^verbatim>\<open>part_000\<close> returns kind
  \<^verbatim>\<open>ErrorInvalidOperation\<close>, the empty field and \<^verbatim>\<open>BadValue = value\<close>;
  \<^verbatim>\<open>InvalidOperation(detail)\<close> of \<^verbatim>\<open>pkg/validate/validator/validator.go\<close> takes no value
  and returns the same kind, the empty field and the empty string as \<^verbatim>\<open>BadValue\<close>.
\<close>

theorem InvalidOperation_fields:
  "Type (InvalidOperation detail val) = ErrorInvalidOperation
   \<and> Field' (InvalidOperation detail val) = ''''
   \<and> BadValue (InvalidOperation detail val) = val
   \<and> Type (pkg_InvalidOperation detail) = ErrorInvalidOperation
   \<and> Field' (pkg_InvalidOperation detail) = ''''
   \<and> BadValue (pkg_InvalidOperation detail) = IString ''''"
  by (simp add: InvalidOperation_def pkg_InvalidOperation_def)

text \<open>
  C5: \<^verbatim>\<open>part_000\<close> declares exactly nine error kinds, pairwise distinct, one of them
  \<^verbatim>\<open>ErrorInvalidDefaultChannel\<close>; its nine constructors produce these nine kinds and no
  other; and \<^verbatim>\<open>InvalidDefaultChannel(detail, value)\<close> returns kind
  \<^verbatim>\<open>ErrorInvalidDefaultChannel\<close>, the empty field and \<^verbatim>\<open>BadValue = value\<close>.
\<close>

theorem InvalidDefaultChannel_fields:
  "length ErrorTypes = 9 \<and> distinct ErrorTypes
   \<and> ErrorInvalidDefaultChannel \<in> set ErrorTypes
   \<and> map Type [InvalidCSV d1, OptionalFieldMissing d2 f2 v2, MandatoryFieldMissing d3 f3 v3,
                UnsupportedType d4, InvalidParse d5 v5, IOError d6 v6, FailedValidation d7 v7,
                InvalidOperation d8 v8, InvalidDefaultChannel d9 v9] = ErrorTypes
   \<and> Type (InvalidDefaultChannel detail val) = ErrorInvalidDefaultChannel
   \<and> Field' (InvalidDefaultChannel detail val) = ''''
   \<and> BadValue (InvalidDefaultChannel detail val) = val"
proof -
  have "length ErrorTypes = 9" by (simp add: ErrorTypes_def)
  moreover have "distinct ErrorTypes" by (simp add: ErrorTypes_def ErrorType_defs)
  moreover have "ErrorInvalidDefaultChannel \<in> set ErrorTypes" by (simp add: ErrorTypes_def)
  moreover have "map Type [InvalidCSV d1, OptionalFieldMissing d2 f2 v2,
      MandatoryFieldMissing d3 f3 v3, UnsupportedType d4, InvalidParse d5 v5, IOError d6 v6,
      FailedValidation d7 v7, InvalidOperation d8 v8, InvalidDefaultChannel d9 v9] = ErrorTypes"
    by (simp add: ErrorTypes_def constructor_defs)
  ultimately show ?thesis by (simp add: InvalidDefaultChannel_def)
qed

text \<open>
  C6: every constructor, of \<^verbatim>\<open>part_000\<close> and of
  \<^verbatim>\<open>pkg/validate/validator/validator.go\<close>, returns an error of the kind documented for
  it, and the terse rendering \<^verbatim>\<open>Error()\<close> of that error is the \<^verbatim>\<open>detail\<close> argument.
\<close>

theorem constructors_kind_and_terse:
  "Type (InvalidCSV detail) = ErrorInvalidCSV \<and> Error_Error (InvalidCSV detail) = detail
   \<and> Type (InvalidDefaultChannel detail val) = ErrorInvalidDefaultChannel
   \<and> Error_Error (InvalidDefaultChannel detail val) = detail
   \<and> Type (OptionalFieldMissing detail field val) = WarningFieldMissing
   \<and> Error_Error (OptionalFieldMissing detail field val) = detail
   \<and> Type (MandatoryFieldMissing detail field val) = ErrorFieldMissing
   \<and> Error_Error (MandatoryFieldMissing detail field val) = detail
   \<and> Type (UnsupportedType detail) = ErrorUnsupportedType
   \<and> Error_Error (UnsupportedType detail) = detail
   \<and> Type (InvalidParse detail val) = ErrorInvalidParse
   \<and> Error_Error (InvalidParse detail val) = detail
   \<and> Type (IOError detail val) = ErrorIO \<and> Error_Error (IOError detail val) = detail
   \<and> Type (FailedValidation detail val) = ErrorFailedValidation
   \<and> Error_Error (FailedValidation detail val) = detail
   \<and> Type (InvalidOperation detail val) = ErrorInvalidOperation
   \<and> Error_Error (InvalidOperation detail val) = detail
   \<and> Type (pkg_InvalidCSV detail) = ErrorInvalidCSV
   \<and> Error_Error (pkg_InvalidCSV detail) = detail
   \<and> Type (pkg_OptionalFieldMissing field val detail) = WarningFieldMissing
   \<and> Error_Error (pkg_OptionalFieldMissing field val detail) = detail
   \<and> Type (pkg_MandatoryFieldMissing field val detail) = ErrorFieldMissing
   \<and> Error_Error (pkg_MandatoryFieldMissing field val detail) = detail
   \<and> Type (pkg_UnsupportedType detail) = ErrorUnsupportedType
   \<and> Error_Error (pkg_UnsupportedType detail) = detail
   \<and> Type (pkg_InvalidParse detail val) = ErrorInvalidParse
   \<and> Error_Error (pkg_InvalidParse detail val) = detail
   \<and> Type (pkg_IOError detail val) = ErrorIO \<and> Error_Error (pkg_IOError detail val) = detail
   \<and> Type (pkg_FailedValidation detail val) = ErrorFailedValidation
   \<and> Error_Error (pkg_FailedValidation detail val) = detail
   \<and> Type (pkg_InvalidOperation detail) = ErrorInvalidOperation
   \<and> Error_Error (pkg_InvalidOperation detail) = detail"
  unfolding constructor_defs pkg_constructor_defs Error_Error_def
  by (simp only: Error.simps simp_thms)

subsection \<open>Rendering of errors and kinds\<close>

text \<open>
  C7, as the specification states it, fails in both files. The canonical description of
  the kind of \<^verbatim>\<open>InvalidCSV("x")\<close> is \<^verbatim>\<open>CSV file not valid\<close>. In \<^verbatim>\<open>part_000\<close> the verbose
  rendering \<^verbatim>\<open>String()\<close> of that error is \<^verbatim>\<open>x\<close>, the detail alone; in
  \<^verbatim>\<open>pkg/validate/validator/validator.go\<close> it is
  \<^verbatim>\<open>Error type: CSVFileNotValid | Field:  | Value:  | Detail: x\<close>, with the identifier of
  the kind. Neither contains the description.
\<close>

theorem Error_String_counterexample:
  "ErrorType_String (Type (InvalidCSV ''x'' :: unit Error)) = Inr ''CSV file not valid''
   \<and> Error_String (InvalidCSV ''x'' :: unit Error) = ''x''
   \<and> \<not> sublist ''CSV file not valid'' (Error_String (InvalidCSV ''x'' :: unit Error))
   \<and> pkg_Error_String disp_unit (pkg_InvalidCSV ''x'') =
       ''Error type: CSVFileNotValid | Field:  | Value:  | Detail: x''
   \<and> \<not> sublist ''CSV file not valid'' (pkg_Error_String disp_unit (pkg_InvalidCSV ''x''))"
proof -
  have 1: "ErrorType_String (Type (InvalidCSV ''x'' :: unit Error)) = Inr ''CSV file not valid''"
    by (simp add: ErrorType_String_def InvalidCSV_def)
  have 2: "Error_String (InvalidCSV ''x'' :: unit Error) = ''x''"
    by (simp add: Error_String_def Error_Error_def InvalidCSV_def)
  have 3: "pkg_Error_String disp_unit (pkg_InvalidCSV ''x'') =
       ''Error type: CSVFileNotValid | Field:  | Value:  | Detail: x''"
    by (simp add: pkg_Error_String_def pkg_InvalidCSV_def fmt_v_def ErrorInvalidCSV_def)
  have 4: "\<not> sublist ''CSV file not valid'' ''x''"
    by code_simp
  have 5: "\<not> sublist ''CSV file not valid''
      ''Error type: CSVFileNotValid | Field:  | Value:  | Detail: x''"
    by code_simp
  show ?thesis unfolding 1 2 3 using 4 5 by simp
qed

text \<open>
  C7, amended: in \<^verbatim>\<open>part_000\<close> the verbose rendering \<^verbatim>\<open>String()\<close> is the terse one, the
  detail alone. In \<^verbatim>\<open>pkg/validate/validator/validator.go\<close> it is composed in the fixed
  order \<^verbatim>\<open>Error type: \<close>, the identifier string of the kind, \<^verbatim>\<open> | Field: \<close>, the field,
  \<^verbatim>\<open> | Value: \<close>, the display form of the bad value, \<^verbatim>\<open> | Detail: \<close>, the detail.
\<close>

theorem Error_String_renderings:
  "Error_String err = Detail err
   \<and> pkg_Error_String disp err =
       ''Error type: '' @ Type err @ '' | Field: '' @ Field' err @
       '' | Value: '' @ fmt_v disp (BadValue err) @ '' | Detail: '' @ Detail err"
  by (simp only: Error_String_def Error_Error_def pkg_Error_String_def Sprintf_verbose simp_thms)

text \<open>
  C8: \<^verbatim>\<open>ErrorType.String\<close> panics exactly on the kinds that are not among the nine
  declared ones, and the panic reports the kind; on the kind of every error a
  constructor of \<^verbatim>\<open>part_000\<close> returns, it returns the description of that kind.
\<close>

theorem ErrorType_String_panics_iff:
  "isl (ErrorType_String t) = (t \<notin> set ErrorTypes)
   \<and> (t \<notin> set ErrorTypes \<longrightarrow> ErrorType_String t = Inl (Unrecognized_validation_error t))
   \<and> ErrorType_String (Type (InvalidCSV d1)) = Inr ''CSV file not valid''
   \<and> ErrorType_String (Type (OptionalFieldMissing d2 f2 v2)) = Inr ''Optional field not found''
   \<and> ErrorType_String (Type (MandatoryFieldMissing d3 f3 v3)) = Inr ''Mandatory field not found''
   \<and> ErrorType_String (Type (UnsupportedType d4)) = Inr ''Field type not supported''
   \<and> ErrorType_String (Type (InvalidParse d5 v5)) = Inr ''Unmarshall/Parse error''
   \<and> ErrorType_String (Type (IOError d6 v6)) = Inr ''File read error''
   \<and> ErrorType_String (Type (FailedValidation d7 v7)) = Inr ''Validation failed''
   \<and> ErrorType_String (Type (InvalidOperation d8 v8)) = Inr ''Operation failed''
   \<and> ErrorType_String (Type (InvalidDefaultChannel d9 v9)) = Inr ''Default channel not found''"
proof -
  have "isl (ErrorType_String t) = (t \<notin> set ErrorTypes)"
    by (simp add: ErrorType_String_def ErrorTypes_def)
  moreover have "t \<notin> set ErrorTypes \<longrightarrow> ErrorType_String t = Inl (Unrecognized_validation_error t)"
    by (simp add: ErrorType_String_def ErrorTypes_def)
  moreover have "ErrorType_String ErrorInvalidCSV = Inr ''CSV file not valid''"
    "ErrorType_String WarningFieldMissing = Inr ''Optional field not found''"
    "ErrorType_String ErrorFieldMissing = Inr ''Mandatory field not found''"
    "ErrorType_String ErrorUnsupportedType = Inr ''Field type not supported''"
    "ErrorType_String ErrorInvalidParse = Inr ''Unmarshall/Parse error''"
    "ErrorType_String ErrorIO = Inr ''File read error''"
    "ErrorType_String ErrorFailedValidation = Inr ''Validation failed''"
    "ErrorType_String ErrorInvalidOperation = Inr ''Operation failed''"
    "ErrorType_String ErrorInvalidDefaultChannel = Inr ''Default channel not found''"
    by (simp_all add: ErrorType_String_def ErrorType_defs)
  ultimately show ?thesis
    by (simp add: constructor_defs)
qed

text \<open>C8 on the kind \<^verbatim>\<open>Bogus\<close>, which is not declared: rendering it panics.\<close>

theorem ErrorType_String_panics_iff_witness:
  "''Bogus'' \<notin> set ErrorTypes
   \<and> ErrorType_String ''Bogus'' = Inl (Unrecognized_validation_error ''Bogus'')"
proof -
  have h: "''Bogus'' \<notin> set ErrorTypes" by (simp add: ErrorTypes_def ErrorType_defs)
  have "ErrorType_String ''Bogus'' = Inl (Unrecognized_validation_error ''Bogus'')"
    by (rule ErrorType_String_panics_iff [THEN conjunct2, THEN conjunct1, rule_format, OF h])
  with h show ?thesis by simp
qed

end
